theory Spec2Isabelle
  imports Main "HOL-Library.AList" "HOL-Library.Finite_Map" "HOL-Library.Multiset"
    "HOL-Library.Char_ord" "HOL-Library.List_Lexorder" "HOL-Library.Product_Lexorder"
    "HOL-Library.Sublist"
begin

section \<open>Comparison configuration of the docker\_container module\<close>

text \<open>
  The module compares the parameters of a task with the configuration of an existing
  container. Every container option carries a value type (the strings \<open>value\<close>,
  \<open>list\<close>, \<open>set\<close>, \<open>dict\<close> and \<open>set(dict)\<close> of the source) and a comparison mode
  (\<open>strict\<close>, \<open>ignore\<close>, \<open>allow_more_present\<close>). Both are closed sets of string
  constants in the source and are datatypes here; what the user writes in the
  \<open>comparisons\<close> option stays a string, since any text can be given there.
\<close>

datatype vtype = TValue | TList | TSet | TDict | TSetDict

datatype cmode = Strict | Ignore | AllowMorePresent

text \<open>An entry of the comparisons table: \<open>dict(type=..., comparison=..., name=...)\<close>.\<close>

record compare =
  ctype :: vtype
  comparison :: cmode
  cname :: string

text \<open>The part of an argument-spec entry that \<open>_parse_comparisons\<close> reads:
  \<open>data['type']\<close>, which every entry of the module has, and
  \<open>data.get('aliases', [])\<close>.\<close>

record option_data =
  otype :: string
  aliases :: "string list"

text \<open>Every way the module stops: \<open>fail\<close> ends the run with a message (one constructor
  for each message of the functions modelled), and a missing dictionary key or
  attribute raises.\<close>

datatype error =
    WildcardModeError
  | NotContainerOption string
  | UnknownOption string
  | AliasConflict string string string
  | ValueNotCollection string string
  | UnknownMode string
  | KeyError string
  | AttributeError string
  | TypeError
  | UnpauseLimit
  | UnpauseFailed
  | RemoveFailed
  | StopFailed
  | KillFailed

text \<open>The module parameters read by \<open>_parse_comparisons\<close>. Of \<open>networks\<close> only
  \<open>is None\<close> is tested. \<open>comparisons\<close> is a dictionary, kept as the list of its items
  in iteration order.\<close>

record 'n module_params =
  ignore_image :: bool
  purge_networks :: bool
  networks :: "'n option"
  comparisons :: "(string \<times> string) list option"

type_synonym comparisons_table = "string \<rightharpoonup> compare"

definition explicit_types :: "(string \<times> vtype) list" where
  "explicit_types =
    [(''command'', TList),
     (''devices'', TSetDict),
     (''dns_search_domains'', TList),
     (''dns_servers'', TList),
     (''env'', TSet),
     (''entrypoint'', TList),
     (''etc_hosts'', TSet),
     (''networks'', TSetDict),
     (''ulimits'', TSetDict),
     (''device_read_bps'', TSetDict),
     (''device_write_bps'', TSetDict),
     (''device_read_iops'', TSetDict),
     (''device_write_iops'', TSetDict)]"

definition default_values :: "(string \<times> cmode) list" where
  "default_values = [(''stop_timeout'', Ignore)]"

text \<open>\<open>__NON_CONTAINER_PROPERTY_OPTIONS\<close>; the keys of \<open>DOCKER_COMMON_ARGS\<close> are
  defined in another module and are a parameter.\<close>

definition NON_CONTAINER_PROPERTY_OPTIONS :: "string list \<Rightarrow> string list" where
  "NON_CONTAINER_PROPERTY_OPTIONS docker_common_args =
    [''env_file'', ''force_kill'', ''keep_volumes'', ''ignore_image'', ''name'', ''pull'',
     ''purge_networks'', ''recreate'', ''restart'', ''state'', ''trust_image_content'',
     ''networks'', ''cleanup'', ''kill_signal'', ''output_logs'', ''paused'']
    @ docker_common_args"

definition option_type :: "string \<Rightarrow> option_data \<Rightarrow> vtype" where
  "option_type option data =
    (case map_of explicit_types option of
       Some t \<Rightarrow> t
     | None \<Rightarrow>
         if otype data = ''list'' then TSet
         else if otype data = ''dict'' then TDict
         else TValue)"

definition option_comparison :: "string \<Rightarrow> vtype \<Rightarrow> cmode" where
  "option_comparison option t =
    (case map_of default_values option of
       Some c \<Rightarrow> c
     | None \<Rightarrow> if t = TList \<or> t = TValue then Strict else AllowMorePresent)"

text \<open>The first loop ("Put in defaults"): the state is \<open>comparisons\<close>,
  \<open>comp_aliases\<close> and \<open>all_options\<close>.\<close>

type_synonym defaults_state = "comparisons_table \<times> (string \<rightharpoonup> string) \<times> string set"

fun put_defaults ::
  "string list \<Rightarrow> (string \<times> option_data) list \<Rightarrow> defaults_state \<Rightarrow> defaults_state" where
  "put_defaults nc [] st = st"
| "put_defaults nc ((option, data) # rest) (comps, comp_aliases, all_options) =
    (let all_options' = all_options \<union> {option} \<union> set (aliases data) in
     if option \<in> set nc \<and> option \<noteq> ''networks''
     then put_defaults nc rest (comps, comp_aliases, all_options')
     else
       let t = option_type option data;
           c = option_comparison option t;
           comps' = comps(option \<mapsto> \<lparr>ctype = t, comparison = c, cname = option\<rparr>);
           comp_aliases' =
             fold (\<lambda>alias m. m(alias \<mapsto> option)) (aliases data) (comp_aliases(option \<mapsto> option))
       in put_defaults nc rest (comps', comp_aliases', all_options'))"

definition defaults_of :: "string list \<Rightarrow> (string \<times> option_data) list \<Rightarrow> defaults_state" where
  "defaults_of docker_common_args argument_spec =
    put_defaults (NON_CONTAINER_PROPERTY_OPTIONS docker_common_args) argument_spec
      (Map.empty, Map.empty, {})"

definition default_comparisons ::
  "string list \<Rightarrow> (string \<times> option_data) list \<Rightarrow> comparisons_table" where
  "default_comparisons dca argument_spec = fst (defaults_of dca argument_spec)"

definition comp_aliases_of ::
  "string list \<Rightarrow> (string \<times> option_data) list \<Rightarrow> (string \<rightharpoonup> string)" where
  "comp_aliases_of dca argument_spec = fst (snd (defaults_of dca argument_spec))"

definition all_options_of :: "string list \<Rightarrow> (string \<times> option_data) list \<Rightarrow> string set" where
  "all_options_of dca argument_spec = snd (snd (defaults_of dca argument_spec))"

text \<open>\<open>comparisons[key]['comparison'] = mode\<close>: a \<open>KeyError\<close> when the key is missing.\<close>

definition set_comparison :: "comparisons_table \<Rightarrow> string \<Rightarrow> cmode \<Rightarrow> error + comparisons_table" where
  "set_comparison comps key mode =
    (case comps key of
       None \<Rightarrow> Inl (KeyError key)
     | Some e \<Rightarrow> Inr (comps(key \<mapsto> e\<lparr>comparison := mode\<rparr>)))"

text \<open>"Process legacy ignore options".\<close>

definition legacy_options :: "'n module_params \<Rightarrow> comparisons_table \<Rightarrow> error + comparisons_table" where
  "legacy_options params comps =
    (case (if ignore_image params then set_comparison comps ''image'' Ignore else Inr comps) of
       Inl e \<Rightarrow> Inl e
     | Inr comps1 \<Rightarrow>
         if purge_networks params then set_comparison comps1 ''networks'' Strict else Inr comps1)"

text \<open>The comparison mode named by a string that passed the test
  \<open>value in ('strict', 'ignore')\<close> or \<open>value == 'allow_more_present'\<close>.\<close>

definition mode_of :: "string \<Rightarrow> cmode" where
  "mode_of v = (if v = ''strict'' then Strict else if v = ''ignore'' then Ignore else AllowMorePresent)"

text \<open>The wildcard loop \<open>for option, v in comparisons.items()\<close>: every entry takes the
  wildcard's mode, except \<open>networks\<close> when the \<open>networks\<close> parameter is \<open>None\<close>.\<close>

definition apply_wildcard :: "'n module_params \<Rightarrow> string \<Rightarrow> comparisons_table \<Rightarrow> comparisons_table" where
  "apply_wildcard params v comps =
    (\<lambda>option.
       case comps option of
         None \<Rightarrow> None
       | Some e \<Rightarrow>
           if option = ''networks'' \<and> networks params = None then Some e
           else Some (e\<lparr>comparison := mode_of v\<rparr>))"

definition process_wildcard ::
  "'n module_params \<Rightarrow> (string \<times> string) list \<Rightarrow> comparisons_table \<Rightarrow> error + comparisons_table" where
  "process_wildcard params cs comps =
    (case map_of cs ''*'' of
       None \<Rightarrow> Inr comps
     | Some v \<Rightarrow>
         if \<not> (v = ''strict'' \<or> v = ''ignore'') then Inl WildcardModeError
         else Inr (apply_wildcard params v comps))"

text \<open>\<open>key_main in all_options\<close> is evaluated by the source where \<open>key_main\<close> is
  \<open>None\<close>; \<open>all_options\<close> holds strings only.\<close>

fun py_in :: "string option \<Rightarrow> string set \<Rightarrow> bool" where
  "py_in None S = False"
| "py_in (Some k) S = (k \<in> S)"

text \<open>The loop "Now process all other comparisons": the state is \<open>comparisons\<close> and
  \<open>comp_aliases_used\<close>.\<close>

fun process_comparisons ::
  "(string \<rightharpoonup> string) \<Rightarrow> string set \<Rightarrow> (string \<times> string) list \<Rightarrow>
   comparisons_table \<times> (string \<rightharpoonup> string) \<Rightarrow> error + (comparisons_table \<times> (string \<rightharpoonup> string))" where
  "process_comparisons comp_aliases all_options [] st = Inr st"
| "process_comparisons comp_aliases all_options ((key, v) # rest) (comps, used) =
    (if key = ''*'' then process_comparisons comp_aliases all_options rest (comps, used)
     else
       case comp_aliases key of
         None \<Rightarrow>
           if py_in None all_options then Inl (NotContainerOption key)
           else Inl (UnknownOption key)
       | Some key_main \<Rightarrow>
           (case used key_main of
              Some other \<Rightarrow> Inl (AliasConflict key other key_main)
            | None \<Rightarrow>
                let used' = used(key_main \<mapsto> key) in
                if v = ''strict'' \<or> v = ''ignore'' then
                  (case set_comparison comps key_main (mode_of v) of
                     Inl e \<Rightarrow> Inl e
                   | Inr comps' \<Rightarrow>
                       process_comparisons comp_aliases all_options rest (comps', used'))
                else if v = ''allow_more_present'' then
                  (case comps key_main of
                     None \<Rightarrow> Inl (KeyError key_main)
                   | Some e \<Rightarrow>
                       if ctype e = TValue then Inl (ValueNotCollection key v)
                       else
                         (case set_comparison comps key_main (mode_of v) of
                            Inl e \<Rightarrow> Inl e
                          | Inr comps' \<Rightarrow>
                              process_comparisons comp_aliases all_options rest (comps', used')))
                else Inl (UnknownMode v)))"

text \<open>"Process options": nothing happens when \<open>comparisons\<close> is \<open>None\<close> or empty.\<close>

definition process_options ::
  "(string \<rightharpoonup> string) \<Rightarrow> string set \<Rightarrow> 'n module_params \<Rightarrow> comparisons_table \<Rightarrow>
   error + comparisons_table" where
  "process_options comp_aliases all_options params comps =
    (case comparisons params of
       None \<Rightarrow> Inr comps
     | Some cs \<Rightarrow>
         if cs = [] then Inr comps
         else
           (case process_wildcard params cs comps of
              Inl e \<Rightarrow> Inl e
            | Inr comps1 \<Rightarrow>
                (case process_comparisons comp_aliases all_options cs (comps1, Map.empty) of
                   Inl e \<Rightarrow> Inl e
                 | Inr (comps2, used) \<Rightarrow> Inr comps2)))"

text \<open>"Add implicit options".\<close>

definition add_implicit_options :: "comparisons_table \<Rightarrow> error + comparisons_table" where
  "add_implicit_options comps =
    (let comps1 = comps(''publish_all_ports'' \<mapsto>
                    \<lparr>ctype = TValue, comparison = Strict, cname = ''published_ports''\<rparr>) in
     case comps1 ''published_ports'' of
       None \<Rightarrow> Inl (KeyError ''published_ports'')
     | Some pp \<Rightarrow>
         let comps2 = comps1(''expected_ports'' \<mapsto>
                        \<lparr>ctype = TDict, comparison = comparison pp, cname = ''expected_ports''\<rparr>) in
         (case comps2 ''healthcheck'' of
            None \<Rightarrow> Inl (KeyError ''healthcheck'')
          | Some hc \<Rightarrow>
              Inr (comps2(''disable_healthcheck'' \<mapsto>
                     \<lparr>ctype = TValue,
                      comparison = (if comparison hc = Ignore then Ignore else Strict),
                      cname = ''disable_healthcheck''\<rparr>))))"

text \<open>\<open>_parse_comparisons\<close>. The two warnings at its end change no state.\<close>

definition parse_comparisons ::
  "string list \<Rightarrow> (string \<times> option_data) list \<Rightarrow> 'n module_params \<Rightarrow> error + comparisons_table" where
  "parse_comparisons docker_common_args argument_spec params =
    (case defaults_of docker_common_args argument_spec of
       (comps0, comp_aliases, all_options) \<Rightarrow>
         (case legacy_options params comps0 of
            Inl e \<Rightarrow> Inl e
          | Inr comps1 \<Rightarrow>
              (case process_options comp_aliases all_options params comps1 of
                 Inl e \<Rightarrow> Inl e
               | Inr comps2 \<Rightarrow> add_implicit_options comps2)))"

text \<open>The \<open>argument_spec\<close> of \<open>main\<close>: for every option its \<open>type\<close> and its
  aliases. The options of \<open>DOCKER_COMMON_ARGS\<close>, which the client class adds, are
  defined in another module.\<close>

definition argument_spec :: "(string \<times> option_data) list" where
  "argument_spec =
    [(''auto_remove'', \<lparr>otype = ''bool'', aliases = []\<rparr>),
     (''blkio_weight'', \<lparr>otype = ''int'', aliases = []\<rparr>),
     (''capabilities'', \<lparr>otype = ''list'', aliases = []\<rparr>),
     (''cap_drop'', \<lparr>otype = ''list'', aliases = []\<rparr>),
     (''cleanup'', \<lparr>otype = ''bool'', aliases = []\<rparr>),
     (''command'', \<lparr>otype = ''raw'', aliases = []\<rparr>),
     (''comparisons'', \<lparr>otype = ''dict'', aliases = []\<rparr>),
     (''cpu_period'', \<lparr>otype = ''int'', aliases = []\<rparr>),
     (''cpu_quota'', \<lparr>otype = ''int'', aliases = []\<rparr>),
     (''cpuset_cpus'', \<lparr>otype = ''str'', aliases = []\<rparr>),
     (''cpuset_mems'', \<lparr>otype = ''str'', aliases = []\<rparr>),
     (''cpu_shares'', \<lparr>otype = ''int'', aliases = []\<rparr>),
     (''detach'', \<lparr>otype = ''bool'', aliases = []\<rparr>),
     (''devices'', \<lparr>otype = ''list'', aliases = []\<rparr>),
     (''device_read_bps'', \<lparr>otype = ''list'', aliases = []\<rparr>),
     (''device_write_bps'', \<lparr>otype = ''list'', aliases = []\<rparr>),
     (''device_read_iops'', \<lparr>otype = ''list'', aliases = []\<rparr>),
     (''device_write_iops'', \<lparr>otype = ''list'', aliases = []\<rparr>),
     (''dns_servers'', \<lparr>otype = ''list'', aliases = []\<rparr>),
     (''dns_opts'', \<lparr>otype = ''list'', aliases = []\<rparr>),
     (''dns_search_domains'', \<lparr>otype = ''list'', aliases = []\<rparr>),
     (''domainname'', \<lparr>otype = ''str'', aliases = []\<rparr>),
     (''entrypoint'', \<lparr>otype = ''list'', aliases = []\<rparr>),
     (''env'', \<lparr>otype = ''dict'', aliases = []\<rparr>),
     (''env_file'', \<lparr>otype = ''path'', aliases = []\<rparr>),
     (''etc_hosts'', \<lparr>otype = ''dict'', aliases = []\<rparr>),
     (''exposed_ports'', \<lparr>otype = ''list'', aliases = [''exposed'', ''expose'']\<rparr>),
     (''force_kill'', \<lparr>otype = ''bool'', aliases = [''forcekill'']\<rparr>),
     (''groups'', \<lparr>otype = ''list'', aliases = []\<rparr>),
     (''healthcheck'', \<lparr>otype = ''dict'', aliases = []\<rparr>),
     (''hostname'', \<lparr>otype = ''str'', aliases = []\<rparr>),
     (''ignore_image'', \<lparr>otype = ''bool'', aliases = []\<rparr>),
     (''image'', \<lparr>otype = ''str'', aliases = []\<rparr>),
     (''init'', \<lparr>otype = ''bool'', aliases = []\<rparr>),
     (''interactive'', \<lparr>otype = ''bool'', aliases = []\<rparr>),
     (''ipc_mode'', \<lparr>otype = ''str'', aliases = []\<rparr>),
     (''keep_volumes'', \<lparr>otype = ''bool'', aliases = []\<rparr>),
     (''kernel_memory'', \<lparr>otype = ''str'', aliases = []\<rparr>),
     (''kill_signal'', \<lparr>otype = ''str'', aliases = []\<rparr>),
     (''labels'', \<lparr>otype = ''dict'', aliases = []\<rparr>),
     (''links'', \<lparr>otype = ''list'', aliases = []\<rparr>),
     (''log_driver'', \<lparr>otype = ''str'', aliases = []\<rparr>),
     (''log_options'', \<lparr>otype = ''dict'', aliases = [''log_opt'']\<rparr>),
     (''mac_address'', \<lparr>otype = ''str'', aliases = []\<rparr>),
     (''memory'', \<lparr>otype = ''str'', aliases = []\<rparr>),
     (''memory_reservation'', \<lparr>otype = ''str'', aliases = []\<rparr>),
     (''memory_swap'', \<lparr>otype = ''str'', aliases = []\<rparr>),
     (''memory_swappiness'', \<lparr>otype = ''int'', aliases = []\<rparr>),
     (''name'', \<lparr>otype = ''str'', aliases = []\<rparr>),
     (''network_mode'', \<lparr>otype = ''str'', aliases = []\<rparr>),
     (''networks'', \<lparr>otype = ''list'', aliases = []\<rparr>),
     (''networks_cli_compatible'', \<lparr>otype = ''bool'', aliases = []\<rparr>),
     (''oom_killer'', \<lparr>otype = ''bool'', aliases = []\<rparr>),
     (''oom_score_adj'', \<lparr>otype = ''int'', aliases = []\<rparr>),
     (''output_logs'', \<lparr>otype = ''bool'', aliases = []\<rparr>),
     (''paused'', \<lparr>otype = ''bool'', aliases = []\<rparr>),
     (''pid_mode'', \<lparr>otype = ''str'', aliases = []\<rparr>),
     (''pids_limit'', \<lparr>otype = ''int'', aliases = []\<rparr>),
     (''privileged'', \<lparr>otype = ''bool'', aliases = []\<rparr>),
     (''published_ports'', \<lparr>otype = ''list'', aliases = [''ports'']\<rparr>),
     (''pull'', \<lparr>otype = ''bool'', aliases = []\<rparr>),
     (''purge_networks'', \<lparr>otype = ''bool'', aliases = []\<rparr>),
     (''read_only'', \<lparr>otype = ''bool'', aliases = []\<rparr>),
     (''recreate'', \<lparr>otype = ''bool'', aliases = []\<rparr>),
     (''restart'', \<lparr>otype = ''bool'', aliases = []\<rparr>),
     (''restart_policy'', \<lparr>otype = ''str'', aliases = []\<rparr>),
     (''restart_retries'', \<lparr>otype = ''int'', aliases = []\<rparr>),
     (''runtime'', \<lparr>otype = ''str'', aliases = []\<rparr>),
     (''security_opts'', \<lparr>otype = ''list'', aliases = []\<rparr>),
     (''shm_size'', \<lparr>otype = ''str'', aliases = []\<rparr>),
     (''state'', \<lparr>otype = ''str'', aliases = []\<rparr>),
     (''stop_signal'', \<lparr>otype = ''str'', aliases = []\<rparr>),
     (''stop_timeout'', \<lparr>otype = ''int'', aliases = []\<rparr>),
     (''sysctls'', \<lparr>otype = ''dict'', aliases = []\<rparr>),
     (''tmpfs'', \<lparr>otype = ''list'', aliases = []\<rparr>),
     (''trust_image_content'', \<lparr>otype = ''bool'', aliases = []\<rparr>),
     (''tty'', \<lparr>otype = ''bool'', aliases = []\<rparr>),
     (''ulimits'', \<lparr>otype = ''list'', aliases = []\<rparr>),
     (''user'', \<lparr>otype = ''str'', aliases = []\<rparr>),
     (''userns_mode'', \<lparr>otype = ''str'', aliases = []\<rparr>),
     (''uts'', \<lparr>otype = ''str'', aliases = []\<rparr>),
     (''volume_driver'', \<lparr>otype = ''str'', aliases = []\<rparr>),
     (''volumes'', \<lparr>otype = ''list'', aliases = []\<rparr>),
     (''volumes_from'', \<lparr>otype = ''list'', aliases = []\<rparr>),
     (''working_dir'', \<lparr>otype = ''str'', aliases = []\<rparr>)]"

section \<open>Values\<close>

text \<open>
  The values that are compared: \<open>None\<close>, a simple value, a list of simple values, a
  dictionary of simple values with string keys, and a list of such dictionaries
  (\<open>compare_generic\<close> documents \<open>set(dict)\<close> as holding "dictionaries of values").
  A dictionary is a finite map: two dictionaries with the same items are equal, as in
  Python. \<open>PList []\<close> and \<open>PDicts []\<close> both stand for the empty list.
\<close>

datatype scalar = SBool bool | SInt int | SStr string

type_synonym pydict = "(string, scalar) fmap"

datatype pyval = PNone | PValue scalar | PList "scalar list" | PDict pydict | PDicts "pydict list"

text \<open>Truth value of \<open>if x:\<close>.\<close>

fun truthy :: "pyval \<Rightarrow> bool" where
  "truthy PNone = False"
| "truthy (PValue (SBool b)) = b"
| "truthy (PValue (SInt i)) = (i \<noteq> 0)"
| "truthy (PValue (SStr s)) = (s \<noteq> [])"
| "truthy (PList xs) = (xs \<noteq> [])"
| "truthy (PDict d) = (d \<noteq> fmempty)"
| "truthy (PDicts ds) = (ds \<noteq> [])"

text \<open>
  \<open>sorted\<close> orders simple values of one type as Python does: numbers by value, strings
  by code points. The values of one collection have one type (\<open>elements='str'\<close>, or
  the fields of a device or ulimit); between values of different types the order is
  fixed here as booleans, then integers, then strings.
\<close>

fun scalar_key :: "scalar \<Rightarrow> nat \<times> int \<times> string" where
  "scalar_key (SBool b) = (0, (if b then 1 else 0), [])"
| "scalar_key (SInt i) = (1, i, [])"
| "scalar_key (SStr s) = (2, 0, s)"

text \<open>\<open>x.items()\<close>, listed by key: the source uses the items only after sorting them.\<close>

definition items :: "pydict \<Rightarrow> (string \<times> scalar) list" where
  "items d = sorted_list_of_fmap d"

text \<open>The sort key \<open>lambda x: sorted(x.items())\<close>.\<close>

definition items_key :: "pydict \<Rightarrow> (string \<times> nat \<times> int \<times> string) list" where
  "items_key x = sort (map (\<lambda>(k, v). (k, scalar_key v)) (items x))"

text \<open>\<open>sorted(p)\<close>: a dictionary yields its keys, a string its characters; a number is
  not iterable and dictionaries have no order.\<close>

fun py_sorted :: "pyval \<Rightarrow> error + pyval" where
  "py_sorted (PList xs) = Inr (PList (sort_key scalar_key xs))"
| "py_sorted (PDict d) = Inr (PList (map SStr (sort (map fst (items d)))))"
| "py_sorted (PDicts ds) = (if length ds \<le> 1 then Inr (PDicts ds) else Inl TypeError)"
| "py_sorted (PValue (SStr s)) = Inr (PList (map (\<lambda>c. SStr [c]) (sort s)))"
| "py_sorted (PValue v) = Inl TypeError"
| "py_sorted PNone = Inl TypeError"

text \<open>\<open>sorted(p, key=lambda x: sorted(x.items()))\<close>: the key function is called on
  every element, and only a dictionary has \<open>items\<close>.\<close>

fun py_sorted_by_items :: "pyval \<Rightarrow> error + pyval" where
  "py_sorted_by_items (PDicts ds) = Inr (PDicts (sort_key items_key ds))"
| "py_sorted_by_items (PList xs) = (if xs = [] then Inr (PList []) else Inl (AttributeError ''items''))"
| "py_sorted_by_items (PDict d) =
     (if d = fmempty then Inr (PList []) else Inl (AttributeError ''items''))"
| "py_sorted_by_items (PValue (SStr s)) =
     (if s = [] then Inr (PList []) else Inl (AttributeError ''items''))"
| "py_sorted_by_items (PValue v) = Inl TypeError"
| "py_sorted_by_items PNone = Inl TypeError"

section \<open>Comparator and difference tracker\<close>

text \<open>Shape-specific defaulting of an observed value (null becomes the empty
  collection of the shape).\<close>

definition normalize_observed :: "vtype \<Rightarrow> pyval \<Rightarrow> pyval" where
  "normalize_observed t b =
    (if b = PNone then
       (case t of
          TValue \<Rightarrow> PNone
        | TList \<Rightarrow> PList []
        | TSet \<Rightarrow> PList []
        | TDict \<Rightarrow> PDict fmempty
        | TSetDict \<Rightarrow> PDicts [])
     else b)"

text \<open>
  Modelled from the spec: \<open>compare_generic\<close> is imported from
  \<open>ansible.module_utils.docker.common\<close>, which is not among the sources. The
  definition follows the comparator contract of the specification: \<open>ignore\<close> always
  matches; \<open>strict\<close> is exact equality for a value, equality as ordered sequences for a
  list, equality as multisets for a set, equal key sets and equal values per key for a
  dictionary; \<open>allow_more_present\<close> asks that every element of the desired set is
  present in the observed one, that every key of the desired dictionary exists in the
  observed one with an equal value, and that every desired dictionary of a set of
  dictionaries has an observed one holding all its items. The observed value is
  defaulted by shape first. Where the specification gives no rule (a set of
  dictionaries under \<open>strict\<close> is taken as a set; \<open>allow_more_present\<close> with a value
  or a list; a value that does not have the declared shape) the values are compared
  by equality.
\<close>

fun compare_set :: "cmode \<Rightarrow> pyval \<Rightarrow> pyval \<Rightarrow> bool" where
  "compare_set method (PList xs) (PList ys) =
     (if method = Strict then mset xs = mset ys else set xs \<subseteq> set ys)"
| "compare_set method a b = (a = b)"

fun compare_dict :: "cmode \<Rightarrow> pyval \<Rightarrow> pyval \<Rightarrow> bool" where
  "compare_dict method (PDict x) (PDict y) = (if method = Strict then x = y else x \<subseteq>\<^sub>f y)"
| "compare_dict method a b = (a = b)"

fun compare_set_of_dicts :: "cmode \<Rightarrow> pyval \<Rightarrow> pyval \<Rightarrow> bool" where
  "compare_set_of_dicts method (PDicts xs) (PDicts ys) =
     (if method = Strict then mset xs = mset ys
      else list_all (\<lambda>x. list_ex (\<lambda>y. x \<subseteq>\<^sub>f y) ys) xs)"
| "compare_set_of_dicts method a b = (a = b)"

definition compare_generic :: "pyval \<Rightarrow> pyval \<Rightarrow> cmode \<Rightarrow> vtype \<Rightarrow> bool" where
  "compare_generic a b method t =
    (if method = Ignore then True
     else
       let b' = normalize_observed t b in
       case t of
         TValue \<Rightarrow> a = b'
       | TList \<Rightarrow> a = b'
       | TSet \<Rightarrow> compare_set method a b'
       | TDict \<Rightarrow> compare_dict method a b'
       | TSetDict \<Rightarrow> compare_set_of_dicts method a b')"

text \<open>
  Modelled from the spec: \<open>DifferenceTracker\<close> is imported from
  \<open>ansible.module_utils.docker.common\<close>, which is not among the sources. A tracker is
  the ordered sequence of its differences; \<open>add\<close> appends one difference and
  overwrites the entry of a property that is added again; \<open>empty\<close> holds iff no
  difference is recorded.
\<close>

record difference =
  name :: string
  parameter :: pyval
  active :: pyval

type_synonym DifferenceTracker = "difference list"

definition add :: "DifferenceTracker \<Rightarrow> string \<Rightarrow> pyval \<Rightarrow> pyval \<Rightarrow> DifferenceTracker" where
  "add tracker key p c =
    (let d = \<lparr>name = key, parameter = p, active = c\<rparr> in
     if key \<in> name ` set tracker then map (\<lambda>x. if name x = key then d else x) tracker
     else tracker @ [d])"

definition empty :: "DifferenceTracker \<Rightarrow> bool" where
  "empty tracker = (tracker = [])"

section \<open>Container.has\_different\_configuration\<close>

text \<open>\<open>Container._compare\<close>.\<close>

definition Container_compare :: "pyval \<Rightarrow> pyval \<Rightarrow> compare \<Rightarrow> bool" where
  "Container_compare a b cmp = compare_generic a b (comparison cmp) (ctype cmp)"

text \<open>\<open>self.parameters_map\<close>, filled in \<open>Container.__init__\<close>, and
  \<open>self.parameters_map.get(key, key)\<close>.\<close>

definition parameters_map :: "(string \<times> string) list" where
  "parameters_map =
    [(''expected_links'', ''links''),
     (''expected_ports'', ''expected_ports''),
     (''expected_exposed'', ''exposed_ports''),
     (''expected_volumes'', ''volumes''),
     (''expected_ulimits'', ''ulimits''),
     (''expected_sysctls'', ''sysctls''),
     (''expected_etc_hosts'', ''etc_hosts''),
     (''expected_env'', ''env''),
     (''expected_entrypoint'', ''entrypoint''),
     (''expected_binds'', ''volumes''),
     (''expected_cmd'', ''command''),
     (''expected_devices'', ''devices''),
     (''expected_healthcheck'', ''healthcheck'')]"

definition parameters_map_get :: "string \<Rightarrow> string" where
  "parameters_map_get key = (case map_of parameters_map key of Some k \<Rightarrow> k | None \<Rightarrow> key)"

text \<open>
  The task parameters are the attributes of \<open>self.parameters\<close>, the \<open>expected_*\<close>
  ones included, which the function computes first; reading a missing attribute raises.
  The inspection result of the container enters as \<open>observed\<close>: \<open>observed key\<close> is the
  value that the source stores under \<open>key\<close> in \<open>config_mapping\<close>, for an inspection
  result that has passed the three checks for \<open>HostConfig\<close>, \<open>Config\<close> and
  \<open>NetworkSettings\<close> at the start of the function.
\<close>

type_synonym parameters = "string \<rightharpoonup> pyval"

text \<open>\<open>option_minimal_versions\<close>: for every option listed, its \<open>supported\<close> flag.\<close>

type_synonym minimal_versions = "string \<rightharpoonup> bool"

definition getattr :: "parameters \<Rightarrow> string \<Rightarrow> error + pyval" where
  "getattr params key = (case params key of None \<Rightarrow> Inl (AttributeError key) | Some v \<Rightarrow> Inr v)"

text \<open>The keys of the dictionary literal "Map parameters to container inspect
  results", in the order written.\<close>

definition config_mapping_keys :: "string list" where
  "config_mapping_keys =
    [''expected_cmd'', ''domainname'', ''hostname'', ''user'', ''detach'', ''init'',
     ''interactive'', ''capabilities'', ''cap_drop'', ''expected_devices'', ''dns_servers'',
     ''dns_opts'', ''dns_search_domains'', ''expected_env'', ''expected_entrypoint'',
     ''expected_etc_hosts'', ''expected_exposed'', ''groups'', ''ipc_mode'', ''labels'',
     ''expected_links'', ''mac_address'', ''memory_swappiness'', ''network_mode'',
     ''userns_mode'', ''oom_killer'', ''oom_score_adj'', ''pid_mode'', ''privileged'',
     ''expected_ports'', ''read_only'', ''restart_policy'', ''runtime'', ''shm_size'',
     ''security_opts'', ''stop_signal'', ''tmpfs'', ''tty'', ''expected_ulimits'',
     ''expected_sysctls'', ''uts'', ''expected_volumes'', ''expected_binds'',
     ''volume_driver'', ''volumes_from'', ''working_dir'', ''publish_all_ports'',
     ''expected_healthcheck'', ''disable_healthcheck'', ''device_read_bps'',
     ''device_write_bps'', ''device_read_iops'', ''device_write_iops'', ''pids_limit'']"

text \<open>The limits that are configuration changes for Docker API versions before 1.22.\<close>

definition limit_keys :: "string list" where
  "limit_keys =
    [''blkio_weight'', ''cpu_period'', ''cpu_quota'', ''cpu_shares'', ''cpuset_cpus'',
     ''cpuset_mems'', ''kernel_memory'', ''memory'', ''memory_reservation'', ''memory_swap'']"

text \<open>\<open>config_mapping[key] = observed value\<close> on the list of items of the dictionary.\<close>

definition store :: "(string \<Rightarrow> pyval) \<Rightarrow> string \<Rightarrow> (string \<times> pyval) list \<Rightarrow> (string \<times> pyval) list" where
  "store observed key cm = AList.update key (observed key) cm"

text \<open>\<open>config_mapping\<close> as the loop finds it. \<open>api_before_1_22\<close> is the test
  \<open>docker_api_version < LooseVersion('1.22')\<close>.\<close>

definition config_mapping ::
  "parameters \<Rightarrow> minimal_versions \<Rightarrow> bool \<Rightarrow> (string \<Rightarrow> pyval) \<Rightarrow> error + (string \<times> pyval) list" where
  "config_mapping params option_minimal_versions api_before_1_22 observed =
    (let cm0 = map (\<lambda>key. (key, observed key)) config_mapping_keys in
     case getattr params ''restart_policy'' of
       Inl e \<Rightarrow> Inl e
     | Inr restart_policy \<Rightarrow>
         let cm1 = (if truthy restart_policy then store observed ''restart_retries'' cm0 else cm0) in
         (case getattr params ''log_driver'' of
            Inl e \<Rightarrow> Inl e
          | Inr log_driver \<Rightarrow>
              let cm2 = (if truthy log_driver
                         then store observed ''log_options'' (store observed ''log_driver'' cm1)
                         else cm1) in
              (case option_minimal_versions ''auto_remove'' of
                 None \<Rightarrow> Inl (KeyError ''auto_remove'')
               | Some auto_remove_supported \<Rightarrow>
                   let cm3 = (if auto_remove_supported then store observed ''auto_remove'' cm2
                              else cm2) in
                   (case option_minimal_versions ''stop_timeout'' of
                      None \<Rightarrow> Inl (KeyError ''stop_timeout'')
                    | Some stop_timeout_supported \<Rightarrow>
                        let cm4 = (if stop_timeout_supported
                                   then store observed ''stop_timeout'' cm3 else cm3) in
                        Inr (if api_before_1_22 then fold (store observed) limit_keys cm4
                             else cm4)))))"

text \<open>\<open>minimal_version.get('supported', True)\<close> for
  \<open>minimal_version = option_minimal_versions.get(key, {})\<close>.\<close>

definition supported :: "minimal_versions \<Rightarrow> string \<Rightarrow> bool" where
  "supported option_minimal_versions key =
    (case option_minimal_versions key of None \<Rightarrow> True | Some s \<Rightarrow> s)"

text \<open>The values recorded for a mismatch: sorted when the type is \<open>set\<close> or
  \<open>set(dict)\<close>; \<open>p\<close> is not \<open>None\<close> here, \<open>c\<close> may be.\<close>

definition display_values :: "vtype \<Rightarrow> pyval \<Rightarrow> pyval \<Rightarrow> error + (pyval \<times> pyval)" where
  "display_values t p c =
    (if t = TSet then
       (case (if p \<noteq> PNone then py_sorted p else Inr p) of
          Inl e \<Rightarrow> Inl e
        | Inr p' \<Rightarrow>
            (case (if c \<noteq> PNone then py_sorted c else Inr c) of
               Inl e \<Rightarrow> Inl e
             | Inr c' \<Rightarrow> Inr (p', c')))
     else if t = TSetDict then
       (case (if p \<noteq> PNone then py_sorted_by_items p else Inr p) of
          Inl e \<Rightarrow> Inl e
        | Inr p' \<Rightarrow>
            (case (if c \<noteq> PNone then py_sorted_by_items c else Inr c) of
               Inl e \<Rightarrow> Inl e
             | Inr c' \<Rightarrow> Inr (p', c')))
     else Inr (p, c))"

text \<open>The body of the loop for one item of \<open>config_mapping\<close>: the difference to
  record, if any.\<close>

definition check_item ::
  "parameters \<Rightarrow> comparisons_table \<Rightarrow> minimal_versions \<Rightarrow> string \<Rightarrow> pyval
   \<Rightarrow> error + (pyval \<times> pyval) option" where
  "check_item params comps option_minimal_versions key v =
    (if \<not> supported option_minimal_versions key then Inr None
     else
       case comps (parameters_map_get key) of
         None \<Rightarrow> Inl (KeyError (parameters_map_get key))
       | Some cmp \<Rightarrow>
           (case getattr params key of
              Inl e \<Rightarrow> Inl e
            | Inr p \<Rightarrow>
                if p \<noteq> PNone then
                  if \<not> Container_compare p v cmp then
                    (case display_values (ctype cmp) p v of
                       Inl e \<Rightarrow> Inl e
                     | Inr pc \<Rightarrow> Inr (Some pc))
                  else Inr None
                else Inr None))"

fun differences_loop ::
  "parameters \<Rightarrow> comparisons_table \<Rightarrow> minimal_versions \<Rightarrow> (string \<times> pyval) list
   \<Rightarrow> DifferenceTracker \<Rightarrow> error + DifferenceTracker" where
  "differences_loop params comps omv [] differences = Inr differences"
| "differences_loop params comps omv ((key, v) # rest) differences =
    (case check_item params comps omv key v of
       Inl e \<Rightarrow> Inl e
     | Inr None \<Rightarrow> differences_loop params comps omv rest differences
     | Inr (Some (p, c)) \<Rightarrow> differences_loop params comps omv rest (add differences key p c))"

definition has_different_configuration ::
  "parameters \<Rightarrow> comparisons_table \<Rightarrow> minimal_versions \<Rightarrow> bool \<Rightarrow> (string \<Rightarrow> pyval)
   \<Rightarrow> error + (bool \<times> DifferenceTracker)" where
  "has_different_configuration params comps option_minimal_versions api_before_1_22 observed =
    (case config_mapping params option_minimal_versions api_before_1_22 observed of
       Inl e \<Rightarrow> Inl e
     | Inr cm \<Rightarrow>
         (case differences_loop params comps option_minimal_versions cm [] of
            Inl e \<Rightarrow> Inl e
          | Inr differences \<Rightarrow> Inr (\<not> empty differences, differences)))"

section \<open>Removing and stopping a container\<close>




















section \<open>Auxiliary notions and example inputs\<close>

definition insert_key :: "string \<Rightarrow> string list \<Rightarrow> string list" where
  "insert_key key ks = (if key \<in> set ks then ks else ks @ [key])"

definition mapping_keys :: "parameters \<Rightarrow> minimal_versions \<Rightarrow> bool \<Rightarrow> error + string list" where
  "mapping_keys params option_minimal_versions api_before_1_22 =
    (case getattr params ''restart_policy'' of
       Inl e \<Rightarrow> Inl e
     | Inr restart_policy \<Rightarrow>
         (case getattr params ''log_driver'' of
            Inl e \<Rightarrow> Inl e
          | Inr log_driver \<Rightarrow>
              (case option_minimal_versions ''auto_remove'' of
                 None \<Rightarrow> Inl (KeyError ''auto_remove'')
               | Some auto_remove_supported \<Rightarrow>
                   (case option_minimal_versions ''stop_timeout'' of
                      None \<Rightarrow> Inl (KeyError ''stop_timeout'')
                    | Some stop_timeout_supported \<Rightarrow>
                        Inr ((if api_before_1_22 then fold insert_key limit_keys else id)
                             ((if stop_timeout_supported then insert_key ''stop_timeout'' else id)
                              ((if auto_remove_supported then insert_key ''auto_remove'' else id)
                               ((if truthy log_driver
                                 then insert_key ''log_options'' \<circ> insert_key ''log_driver''
                                 else id)
                                ((if truthy restart_policy then insert_key ''restart_retries''
                                  else id)
                                 config_mapping_keys)))))))))"

text \<open>Two values that differ at most in the order of the elements of an unordered
  collection of the given type.\<close>

definition same_up_to_order :: "vtype \<Rightarrow> pyval \<Rightarrow> pyval \<Rightarrow> bool" where
  "same_up_to_order t v v' =
    (v = v'
     \<or> (t = TSet \<and> (\<exists>xs ys. v = PList xs \<and> v' = PList ys \<and> mset xs = mset ys))
     \<or> (t = TSetDict \<and> (\<exists>xs ys. v = PDicts xs \<and> v' = PDicts ys \<and> mset xs = mset ys)))"




text \<open>Example task: \<open>hostname\<close>, \<open>capabilities\<close>, \<open>ulimits\<close> and \<open>user\<close> are given
  and supported; \<open>memory\<close> is given as well but marked unsupported, like every other
  key.\<close>

definition ex_comparisons :: comparisons_table where
  "ex_comparisons =
    [''hostname'' \<mapsto> \<lparr>ctype = TValue, comparison = Strict, cname = ''hostname''\<rparr>,
     ''capabilities'' \<mapsto> \<lparr>ctype = TSet, comparison = Strict, cname = ''capabilities''\<rparr>,
     ''ulimits'' \<mapsto> \<lparr>ctype = TSetDict, comparison = AllowMorePresent, cname = ''ulimits''\<rparr>,
     ''user'' \<mapsto> \<lparr>ctype = TValue, comparison = Ignore, cname = ''user''\<rparr>,
     ''memory'' \<mapsto> \<lparr>ctype = TValue, comparison = Strict, cname = ''memory''\<rparr>]"

definition ex_versions :: minimal_versions where
  "ex_versions =
    (\<lambda>key. Some (key \<in> {''hostname'', ''capabilities'', ''expected_ulimits'', ''user''}))"

definition nofile :: pydict where
  "nofile = fmap_of_list [(''Name'', SStr ''nofile''), (''Soft'', SInt 1024), (''Hard'', SInt 2048)]"

definition core :: pydict where
  "core = fmap_of_list [(''Name'', SStr ''core''), (''Soft'', SInt 0), (''Hard'', SInt 0)]"

definition ex_parameters :: "pyval \<Rightarrow> pyval \<Rightarrow> parameters" where
  "ex_parameters caps ulimits =
    (\<lambda>key. Some (if key = ''hostname'' then PValue (SStr ''web'')
                 else if key = ''capabilities'' then caps
                 else if key = ''expected_ulimits'' then ulimits
                 else if key = ''user'' then PValue (SStr ''root'')
                 else if key = ''memory'' then PValue (SStr ''1g'')
                 else PNone))"

definition ex_observed :: "pyval \<Rightarrow> pyval \<Rightarrow> string \<Rightarrow> string \<Rightarrow> string \<Rightarrow> pyval" where
  "ex_observed caps ulimits user memory =
    (\<lambda>key. if key = ''hostname'' then PValue (SStr ''web'')
           else if key = ''capabilities'' then caps
           else if key = ''expected_ulimits'' then ulimits
           else if key = ''user'' then PValue (SStr user)
           else if key = ''memory'' then PValue (SStr memory)
           else PNone)"

definition ex_argument_spec :: "(string \<times> option_data) list" where
  "ex_argument_spec =
    [(''image'', \<lparr>otype = ''str'', aliases = []\<rparr>),
     (''hostname'', \<lparr>otype = ''str'', aliases = []\<rparr>),
     (''labels'', \<lparr>otype = ''dict'', aliases = []\<rparr>),
     (''log_options'', \<lparr>otype = ''dict'', aliases = [''log_opt'']\<rparr>),
     (''name'', \<lparr>otype = ''str'', aliases = []\<rparr>),
     (''networks'', \<lparr>otype = ''list'', aliases = []\<rparr>),
     (''published_ports'', \<lparr>otype = ''list'', aliases = [''ports'']\<rparr>),
     (''healthcheck'', \<lparr>otype = ''dict'', aliases = []\<rparr>)]"

definition ex_module_params :: "(string \<times> string) list \<Rightarrow> unit module_params" where
  "ex_module_params cs =
    \<lparr>ignore_image = False, purge_networks = False, networks = None, comparisons = Some cs\<rparr>"

text \<open>\<open>allow_more_present\<close> is stored only for types other than \<open>value\<close>.\<close>

definition collections_only :: "comparisons_table \<Rightarrow> bool" where
  "collections_only comps =
    (\<forall>k e. comps k = Some e \<longrightarrow> comparison e = AllowMorePresent \<longrightarrow> ctype e \<noteq> TValue)"

section \<open>Properties of the comparison configuration\<close>

lemma set_comparison_Inr:
  assumes "set_comparison comps k m = Inr comps'"
  shows "\<exists>e. comps k = Some e \<and> comps' = comps(k \<mapsto> e\<lparr>comparison := m\<rparr>)"
  using assms by (auto simp: set_comparison_def split: option.splits)

lemma set_comparison_ctype:
  assumes "set_comparison comps k m = Inr comps'"
  shows "map_option ctype (comps' k') = map_option ctype (comps k')"
  using set_comparison_Inr[OF assms] by auto



lemma process_comparisons_wildcard_entry:
  "process_comparisons ca ao ((''*'', v) # rest) st = process_comparisons ca ao rest st"
  by (cases st) simp

lemma process_comparisons_step:
  assumes "process_comparisons ca ao ((key, v) # rest) (comps, used) = Inr res" "key \<noteq> ''*''"
  shows "\<exists>km comps'. ca key = Some km \<and> used km = None
           \<and> (v = ''strict'' \<or> v = ''ignore'' \<or> v = ''allow_more_present'')
           \<and> set_comparison comps km (mode_of v) = Inr comps'
           \<and> (v = ''allow_more_present'' \<longrightarrow> (\<exists>e. comps km = Some e \<and> ctype e \<noteq> TValue))
           \<and> process_comparisons ca ao rest (comps', used(km \<mapsto> key)) = Inr res"
  using assms
  by (auto simp: Let_def split: option.splits if_splits sum.splits)

lemma process_comparisons_used_fails:
  "(key, v) \<in> set cs \<Longrightarrow> key \<noteq> ''*'' \<Longrightarrow> ca key = Some km \<Longrightarrow> used km \<noteq> None
    \<Longrightarrow> \<exists>err. process_comparisons ca ao cs (comps, used) = Inl err"
proof (induction cs arbitrary: comps used)
  case Nil
  then show ?case by simp
next
  case (Cons a cs)
  obtain k w where a: "a = (k, w)" by (cases a)
  show ?case
  proof (cases "process_comparisons ca ao (a # cs) (comps, used)")
    case (Inl e)
    then show ?thesis by blast
  next
    case (Inr res)
    show ?thesis
    proof (cases "k = ''*''")
      case True
      with Cons.prems a have "(key, v) \<in> set cs" by auto
      then have "\<exists>err. process_comparisons ca ao cs (comps, used) = Inl err"
        using Cons.prems(2,3,4) by (rule Cons.IH)
      then show ?thesis using True a by simp
    next
      case False
      from process_comparisons_step[OF Inr[unfolded a] False]
      obtain km' comps' where s: "ca k = Some km'" "used km' = None"
        "process_comparisons ca ao cs (comps', used(km' \<mapsto> k)) = Inr res" by blast
      have "k \<noteq> key" using s Cons.prems by auto
      with Cons.prems a have mem: "(key, v) \<in> set cs" by auto
      have "(used(km' \<mapsto> k)) km \<noteq> None" using Cons.prems(4) by simp
      with mem have "\<exists>err. process_comparisons ca ao cs (comps', used(km' \<mapsto> k)) = Inl err"
        using Cons.prems(2,3) Cons.IH by blast
      with s(3) show ?thesis by simp
    qed
  qed
qed




text \<open>The loop never changes the type of an entry.\<close>

lemma process_comparisons_scalar_fails:
  "(key, ''allow_more_present'') \<in> set cs \<Longrightarrow> key \<noteq> ''*'' \<Longrightarrow> ca key = Some km
    \<Longrightarrow> comps km = Some e \<Longrightarrow> ctype e = TValue
    \<Longrightarrow> \<exists>err. process_comparisons ca ao cs (comps, used) = Inl err"
proof (induction cs arbitrary: comps used e)
  case Nil
  then show ?case by simp
next
  case (Cons a cs)
  obtain k w where a: "a = (k, w)" by (cases a)
  show ?case
  proof (cases "process_comparisons ca ao (a # cs) (comps, used)")
    case (Inl err)
    then show ?thesis by blast
  next
    case (Inr res)
    show ?thesis
    proof (cases "k = ''*''")
      case True
      with Cons.prems a have "(key, ''allow_more_present'') \<in> set cs" by auto
      then have "\<exists>err. process_comparisons ca ao cs (comps, used) = Inl err"
        using Cons.prems(2,3,4,5) by (rule Cons.IH)
      then show ?thesis using True a by simp
    next
      case False
      from process_comparisons_step[OF Inr[unfolded a] False]
      obtain km' comps1 where s: "ca k = Some km'"
        "set_comparison comps km' (mode_of w) = Inr comps1"
        "w = ''allow_more_present'' \<longrightarrow> (\<exists>e. comps km' = Some e \<and> ctype e \<noteq> TValue)"
        "process_comparisons ca ao cs (comps1, used(km' \<mapsto> k)) = Inr res" by blast
      have "(k, w) \<noteq> (key, ''allow_more_present'')"
        using s(1,3) Cons.prems(3,4,5) by auto
      with Cons.prems(1) a have mem: "(key, ''allow_more_present'') \<in> set cs" by auto
      from set_comparison_ctype[OF s(2), of km] Cons.prems(4,5)
      obtain e1 where "comps1 km = Some e1" "ctype e1 = TValue" by auto
      with mem have "\<exists>err. process_comparisons ca ao cs (comps1, used(km' \<mapsto> k)) = Inl err"
        using Cons.prems(2,3) Cons.IH by blast
      with s(4) show ?thesis by simp
    qed
  qed
qed

lemma process_comparisons_twice_fails:
  "cs = xs @ (k1, v1) # ys \<Longrightarrow> (k2, v2) \<in> set ys \<Longrightarrow> k1 \<noteq> ''*'' \<Longrightarrow> k2 \<noteq> ''*''
    \<Longrightarrow> ca k1 = Some km \<Longrightarrow> ca k2 = Some km
    \<Longrightarrow> \<exists>err. process_comparisons ca ao cs (comps, used) = Inl err"
proof (induction xs arbitrary: cs comps used)
  case Nil
  show ?case
  proof (cases "process_comparisons ca ao cs (comps, used)")
    case (Inl err)
    then show ?thesis by blast
  next
    case (Inr res)
    from Inr have "process_comparisons ca ao ((k1, v1) # ys) (comps, used) = Inr res"
      unfolding Nil.prems(1) append_Nil .
    from process_comparisons_step[OF this Nil.prems(3)]
    obtain km' comps1 where s: "ca k1 = Some km'"
      "process_comparisons ca ao ys (comps1, used(km' \<mapsto> k1)) = Inr res" by blast
    have "km' = km" using s(1) Nil.prems(5) by simp
    then have "(used(km' \<mapsto> k1)) km \<noteq> None" by simp
    with Nil.prems(2,4,6)
    have "\<exists>err. process_comparisons ca ao ys (comps1, used(km' \<mapsto> k1)) = Inl err"
      by (rule process_comparisons_used_fails)
    with s(2) show ?thesis by simp
  qed
next
  case (Cons a xs)
  obtain k w where a: "a = (k, w)" by (cases a)
  have IH: "\<exists>err. process_comparisons ca ao (xs @ (k1, v1) # ys) (c, u) = Inl err" for c u
    using Cons.IH[OF refl Cons.prems(2,3,4,5,6)] .
  show ?case
  proof (cases "process_comparisons ca ao cs (comps, used)")
    case (Inl err)
    then show ?thesis by blast
  next
    case (Inr res)
    show ?thesis
    proof (cases "k = ''*''")
      case True
      then show ?thesis using IH[of comps used] Cons.prems(1) a by simp
    next
      case False
      from Inr
      have "process_comparisons ca ao ((k, w) # xs @ (k1, v1) # ys) (comps, used) = Inr res"
        unfolding Cons.prems(1) a append_Cons .
      from process_comparisons_step[OF this False]
      obtain km' comps1 where
        "process_comparisons ca ao (xs @ (k1, v1) # ys) (comps1, used(km' \<mapsto> k)) = Inr res"
        by blast
      with IH[of comps1 "used(km' \<mapsto> k)"] show ?thesis by simp
    qed
  qed
qed



lemma parse_comparisons_Inr:
  assumes "parse_comparisons dca spec params = Inr comps"
  shows "\<exists>comps1 comps2.
           legacy_options params (default_comparisons dca spec) = Inr comps1
         \<and> process_options (comp_aliases_of dca spec) (all_options_of dca spec) params comps1
             = Inr comps2
         \<and> add_implicit_options comps2 = Inr comps"
  using assms
  by (auto simp: parse_comparisons_def default_comparisons_def comp_aliases_of_def
      all_options_of_def split: prod.splits sum.splits)






text \<open>No option of the module has the name of an implicit entry.\<close>

lemma argument_spec_no_implicit:
  "fst ` set argument_spec \<inter> {''publish_all_ports'', ''expected_ports'', ''disable_healthcheck''} = {}"
  by (simp add: argument_spec_def)

lemmas parse_defs = parse_comparisons_def defaults_of_def NON_CONTAINER_PROPERTY_OPTIONS_def
  option_type_def option_comparison_def explicit_types_def default_values_def
  legacy_options_def process_options_def process_wildcard_def set_comparison_def
  add_implicit_options_def apply_wildcard_def mode_of_def Let_def
  default_comparisons_def comp_aliases_of_def all_options_of_def
  ex_argument_spec_def ex_module_params_def

lemma parse_comparisons_alt:
  "parse_comparisons dca spec params =
    (case legacy_options params (default_comparisons dca spec) of
       Inl e \<Rightarrow> Inl e
     | Inr comps1 \<Rightarrow>
         (case process_options (comp_aliases_of dca spec) (all_options_of dca spec) params comps1 of
            Inl e \<Rightarrow> Inl e
          | Inr comps2 \<Rightarrow> add_implicit_options comps2))"
proof -
  obtain a b c where d: "defaults_of dca spec = (a, b, c)" by (cases "defaults_of dca spec")
  then have e: "default_comparisons dca spec = a" "comp_aliases_of dca spec = b"
    "all_options_of dca spec = c"
    by (simp_all add: default_comparisons_def comp_aliases_of_def all_options_of_def)
  show ?thesis unfolding parse_comparisons_def e d by simp
qed

lemma legacy_options_ctype:
  assumes "legacy_options params comps = Inr comps'"
  shows "map_option ctype (comps' k) = map_option ctype (comps k)"
  using assms
  by (auto simp: legacy_options_def set_comparison_def split: if_splits option.splits)

lemma process_wildcard_ctype:
  assumes "process_wildcard params cs comps = Inr comps'"
  shows "map_option ctype (comps' k) = map_option ctype (comps k)"
  using assms
  by (auto simp: process_wildcard_def apply_wildcard_def split: if_splits option.splits)

lemma parse_comparisons_fails_in_loop:
  assumes cs: "comparisons params = Some cs" "cs \<noteq> []"
    and loop: "\<And>comps :: comparisons_table. (\<forall>k. map_option ctype (comps k) = map_option ctype (default_comparisons dca spec k))
      \<Longrightarrow> \<exists>err. process_comparisons (comp_aliases_of dca spec) (all_options_of dca spec) cs
                 (comps, Map.empty) = Inl err"
  shows "\<exists>err. parse_comparisons dca spec params = Inl err"
proof (cases "legacy_options params (default_comparisons dca spec)")
  case (Inl e)
  then show ?thesis by (simp add: parse_comparisons_alt)
next
  case (Inr comps1)
  note l = legacy_options_ctype[OF Inr]
  show ?thesis
  proof (cases "process_wildcard params cs comps1")
    case (Inl e)
    with Inr cs show ?thesis
      by (simp add: parse_comparisons_alt process_options_def)
  next
    case (Inr comps2)
    from process_wildcard_ctype[OF Inr] l
    have "\<forall>k. map_option ctype (comps2 k) = map_option ctype (default_comparisons dca spec k)"
      by simp
    from loop[OF this] obtain err where
      "process_comparisons (comp_aliases_of dca spec) (all_options_of dca spec) cs
         (comps2, Map.empty) = Inl err" by blast
    with Inr \<open>legacy_options params (default_comparisons dca spec) = Inr comps1\<close> cs
    show ?thesis
      by (simp add: parse_comparisons_alt process_options_def)
  qed
qed



text \<open>
  Claim C4. A configuration whose \<open>*\<close> entry carries anything but \<open>strict\<close> or
  \<open>ignore\<close> (\<open>allow_more_present\<close> in particular) makes \<open>_parse_comparisons\<close> fail: no
  comparisons table is produced. The failure is the wildcard message, unless one of the
  two legacy options has already raised.
\<close>

theorem wildcard_mode_rejected:
  assumes "comparisons params = Some cs" and "map_of cs ''*'' = Some w"
    and "w \<noteq> ''strict''" and "w \<noteq> ''ignore''"
  shows "\<exists>e. parse_comparisons dca spec params = Inl e
           \<and> (e = WildcardModeError
                \<or> legacy_options params (default_comparisons dca spec) = Inl e)"
proof -
  from assms(2) have ne: "cs \<noteq> []" by auto
  show ?thesis
  proof (cases "legacy_options params (default_comparisons dca spec)")
    case (Inl e)
    then show ?thesis by (simp add: parse_comparisons_alt)
  next
    case (Inr comps1)
    then show ?thesis using assms ne
      by (simp add: parse_comparisons_alt process_options_def process_wildcard_def)
  qed
qed

theorem wildcard_mode_rejected_witness:
  "parse_comparisons [] ex_argument_spec (ex_module_params [(''*'', ''allow_more_present'')])
     = Inl WildcardModeError"
  using wildcard_mode_rejected[of "ex_module_params [(''*'', ''allow_more_present'')]"
      "[(''*'', ''allow_more_present'')]" "''allow_more_present''" "[]" ex_argument_spec]
  by (auto simp: parse_defs)

lemma option_comparison_collections:
  "option_comparison option t = AllowMorePresent \<Longrightarrow> t \<noteq> TValue"
  by (auto simp: option_comparison_def default_values_def split: if_splits)

lemma put_defaults_collections:
  "collections_only comps \<Longrightarrow> collections_only (fst (put_defaults nc spec (comps, ca, ao)))"
proof (induction spec arbitrary: comps ca ao)
  case Nil
  then show ?case by simp
next
  case (Cons a spec)
  obtain option data where a: "a = (option, data)" by (cases a)
  have "collections_only (comps(option \<mapsto>
          \<lparr>ctype = option_type option data,
           comparison = option_comparison option (option_type option data),
           cname = option\<rparr>))"
    using Cons.prems option_comparison_collections
    by (auto simp: collections_only_def)
  then show ?case using Cons.IH Cons.prems a by (auto simp: Let_def)
qed

lemma legacy_options_collections:
  assumes "legacy_options params comps = Inr comps'" "collections_only comps"
  shows "collections_only comps'"
  using assms
  by (auto simp: legacy_options_def set_comparison_def collections_only_def
      split: if_splits option.splits)

lemma process_wildcard_collections:
  assumes "process_wildcard params cs comps = Inr comps'" "collections_only comps"
  shows "collections_only comps'"
  using assms
  by (auto simp: process_wildcard_def apply_wildcard_def collections_only_def mode_of_def
      split: if_splits option.splits)

lemma process_comparisons_collections:
  "process_comparisons ca ao cs (comps, used) = Inr (comps', used') \<Longrightarrow> collections_only comps
    \<Longrightarrow> collections_only comps'"
proof (induction cs arbitrary: comps used)
  case Nil
  then show ?case by simp
next
  case (Cons a cs)
  obtain k w where a: "a = (k, w)" by (cases a)
  show ?case
  proof (cases "k = ''*''")
    case True
    then show ?thesis using Cons a by simp
  next
    case False
    from process_comparisons_step[OF Cons.prems(1)[unfolded a] False]
    obtain km comps1 where s:
      "w = ''strict'' \<or> w = ''ignore'' \<or> w = ''allow_more_present''"
      "set_comparison comps km (mode_of w) = Inr comps1"
      "w = ''allow_more_present'' \<longrightarrow> (\<exists>e. comps km = Some e \<and> ctype e \<noteq> TValue)"
      "process_comparisons ca ao cs (comps1, used(km \<mapsto> k)) = Inr (comps', used')" by blast
    from set_comparison_Inr[OF s(2)] obtain e where
      e: "comps km = Some e" "comps1 = comps(km \<mapsto> e\<lparr>comparison := mode_of w\<rparr>)" by blast
    have "collections_only comps1"
      using Cons.prems(2) s(1,3) e by (auto simp: collections_only_def mode_of_def)
    with s(4) show ?thesis by (rule Cons.IH)
  qed
qed

lemma process_options_collections:
  assumes "process_options ca ao params comps = Inr comps'" "collections_only comps"
  shows "collections_only comps'"
  using assms process_wildcard_collections process_comparisons_collections
  by (fastforce simp: process_options_def split: option.splits if_splits sum.splits)

lemma add_implicit_options_collections:
  assumes "add_implicit_options comps = Inr comps'" "collections_only comps"
  shows "collections_only comps'"
  using assms
  by (auto simp: add_implicit_options_def Let_def collections_only_def split: option.splits if_splits)

text \<open>
  Claim C5. An entry that gives \<open>allow_more_present\<close> to an option of type \<open>value\<close>
  makes \<open>_parse_comparisons\<close> fail, whatever else the configuration holds; and in
  every table that \<open>_parse_comparisons\<close> returns, an entry with the mode
  \<open>allow_more_present\<close> has a type other than \<open>value\<close>.
\<close>

theorem scalar_allow_more_present_rejected:
  "(comparisons params = Some cs \<and> (key, ''allow_more_present'') \<in> set cs \<and> key \<noteq> ''*''
      \<and> comp_aliases_of dca spec key = Some key_main
      \<and> default_comparisons dca spec key_main = Some e \<and> ctype e = TValue
      \<longrightarrow> (\<exists>err. parse_comparisons dca spec params = Inl err))
   \<and> (\<forall>comps k e'. parse_comparisons dca spec params = Inr comps \<and> comps k = Some e'
         \<and> comparison e' = AllowMorePresent \<longrightarrow> ctype e' \<noteq> TValue)"
proof (intro conjI allI impI)
  assume a: "comparisons params = Some cs \<and> (key, ''allow_more_present'') \<in> set cs \<and> key \<noteq> ''*''
      \<and> comp_aliases_of dca spec key = Some key_main
      \<and> default_comparisons dca spec key_main = Some e \<and> ctype e = TValue"
  then have cs: "comparisons params = Some cs" by simp
  show "\<exists>err. parse_comparisons dca spec params = Inl err"
  proof (rule parse_comparisons_fails_in_loop[OF cs])
    show "cs \<noteq> []" using a by auto
  next
    fix comps :: comparisons_table
    assume "\<forall>k. map_option ctype (comps k) = map_option ctype (default_comparisons dca spec k)"
    then have "map_option ctype (comps key_main) = Some TValue" using a by simp
    then obtain e' where "comps key_main = Some e'" "ctype e' = TValue" by auto
    with a
    show "\<exists>err. process_comparisons (comp_aliases_of dca spec) (all_options_of dca spec) cs
                   (comps, Map.empty) = Inl err"
      by (intro process_comparisons_scalar_fails) auto
  qed
next
  fix comps k e'
  assume a: "parse_comparisons dca spec params = Inr comps \<and> comps k = Some e'
         \<and> comparison e' = AllowMorePresent"
  from a parse_comparisons_Inr[of dca spec params comps] obtain comps1 comps2 where
    l: "legacy_options params (default_comparisons dca spec) = Inr comps1"
    and p: "process_options (comp_aliases_of dca spec) (all_options_of dca spec) params comps1
              = Inr comps2"
    and i: "add_implicit_options comps2 = Inr comps" by blast
  have "collections_only (Map.empty :: comparisons_table)" by (simp add: collections_only_def)
  then have "collections_only (default_comparisons dca spec)"
    unfolding default_comparisons_def defaults_of_def by (rule put_defaults_collections)
  with l have "collections_only comps1" by (rule legacy_options_collections)
  with p have "collections_only comps2" by (rule process_options_collections)
  with i have "collections_only comps" by (rule add_implicit_options_collections)
  with a show "ctype e' \<noteq> TValue" unfolding collections_only_def by blast
qed

theorem scalar_allow_more_present_rejected_witness:
  "(\<exists>err. parse_comparisons [] ex_argument_spec
      (ex_module_params [(''labels'', ''strict''), (''hostname'', ''allow_more_present'')]) = Inl err)
   \<and> (\<exists>comps e'. parse_comparisons [] ex_argument_spec
         (ex_module_params [(''networks'', ''allow_more_present'')]) = Inr comps
       \<and> comps ''networks'' = Some e' \<and> comparison e' = AllowMorePresent \<and> ctype e' \<noteq> TValue)"
proof -
  let ?cs = "[(''labels'', ''strict''), (''hostname'', ''allow_more_present'')]"
  have a: "comp_aliases_of [] ex_argument_spec ''hostname'' = Some ''hostname''"
    by (simp add: parse_defs)
  have d: "default_comparisons [] ex_argument_spec ''hostname''
             = Some \<lparr>ctype = TValue, comparison = Strict, cname = ''hostname''\<rparr>"
    by (simp add: parse_defs)
  have 1: "\<exists>err. parse_comparisons [] ex_argument_spec (ex_module_params ?cs) = Inl err"
    using scalar_allow_more_present_rejected[of "ex_module_params ?cs" ?cs "''hostname''" "[]"
        ex_argument_spec "''hostname''" "\<lparr>ctype = TValue, comparison = Strict, cname = ''hostname''\<rparr>"]
      a d
    by (simp add: ex_module_params_def)
  let ?cs2 = "[(''networks'', ''allow_more_present'')]"
  obtain comps e' where c: "parse_comparisons [] ex_argument_spec (ex_module_params ?cs2) = Inr comps"
    "comps ''networks'' = Some e'" "comparison e' = AllowMorePresent"
    by (simp add: parse_defs)
  with scalar_allow_more_present_rejected[of "ex_module_params ?cs2" _ _ "[]" ex_argument_spec]
  have "ctype e' \<noteq> TValue" by blast
  with c 1 show ?thesis by blast
qed

text \<open>
  Claim C10. A configuration that names one option through two different keys (its name
  and an alias, or two aliases) makes \<open>_parse_comparisons\<close> fail; neither entry
  overwrites the other.
\<close>

theorem alias_conflict_rejected:
  assumes "comparisons params = Some cs"
    and "(k1, v1) \<in> set cs" and "(k2, v2) \<in> set cs" and "k1 \<noteq> k2"
    and "k1 \<noteq> ''*''" and "k2 \<noteq> ''*''"
    and "comp_aliases_of dca spec k1 = Some key_main"
    and "comp_aliases_of dca spec k2 = Some key_main"
  shows "\<exists>err. parse_comparisons dca spec params = Inl err"
proof (rule parse_comparisons_fails_in_loop[OF assms(1)])
  show "cs \<noteq> []" using assms(2) by auto
next
  fix comps :: comparisons_table
  from assms(2) obtain xs ys where s: "cs = xs @ (k1, v1) # ys" by (auto dest: split_list)
  with assms(3,4) have "(k2, v2) \<in> set xs \<or> (k2, v2) \<in> set ys" by auto
  then show "\<exists>err. process_comparisons (comp_aliases_of dca spec) (all_options_of dca spec) cs
                 (comps, Map.empty) = Inl err"
  proof
    assume "(k2, v2) \<in> set ys"
    with s show ?thesis using assms(5,6,7,8) by (rule process_comparisons_twice_fails)
  next
    assume "(k2, v2) \<in> set xs"
    then obtain us vs where "xs = us @ (k2, v2) # vs" by (auto dest: split_list)
    with s have "cs = us @ (k2, v2) # (vs @ (k1, v1) # ys)" "(k1, v1) \<in> set (vs @ (k1, v1) # ys)"
      by simp_all
    then show ?thesis using assms(6,5,8,7) by (rule process_comparisons_twice_fails)
  qed
qed

theorem alias_conflict_rejected_witness:
  "\<exists>err. parse_comparisons [] ex_argument_spec
      (ex_module_params [(''log_options'', ''strict''), (''log_opt'', ''strict'')]) = Inl err"
proof -
  let ?cs = "[(''log_options'', ''strict''), (''log_opt'', ''strict'')]"
  have a: "comp_aliases_of [] ex_argument_spec ''log_options'' = Some ''log_options''"
    "comp_aliases_of [] ex_argument_spec ''log_opt'' = Some ''log_options''"
    by (simp_all add: parse_defs)
  show ?thesis
    by (rule alias_conflict_rejected[of _ ?cs "''log_options''" "''strict''" "''log_opt''" "''strict''",
          OF _ _ _ _ _ _ a])
       (simp_all add: ex_module_params_def)
qed




section \<open>Properties of the comparison with the container\<close>

lemma store_map:
  "store observed key (map (\<lambda>k. (k, observed k)) ks) = map (\<lambda>k. (k, observed k)) (insert_key key ks)"
  by (induction ks) (auto simp: store_def insert_key_def)

lemma fold_store_map:
  "fold (store observed) keys (map (\<lambda>k. (k, observed k)) ks)
     = map (\<lambda>k. (k, observed k)) (fold insert_key keys ks)"
  by (induction keys arbitrary: ks) (simp_all add: store_map)

lemma config_mapping_keys_eq:
  "config_mapping params omv api observed =
     (case mapping_keys params omv api of
        Inl e \<Rightarrow> Inl e
      | Inr ks \<Rightarrow> Inr (map (\<lambda>k. (k, observed k)) ks))"
  unfolding config_mapping_def mapping_keys_def Let_def
  by (cases "getattr params ''restart_policy''"; cases "getattr params ''log_driver''";
      cases "omv ''auto_remove''"; cases "omv ''stop_timeout''")
     (simp_all add: store_map fold_store_map)










lemma set_add: "set (add tracker key p c) \<subseteq> insert \<lparr>name = key, parameter = p, active = c\<rparr> (set tracker)"
  by (auto simp: add_def Let_def)

lemma add_not_Nil: "add tracker key p c \<noteq> []"
  by (auto simp: add_def Let_def)

text \<open>Every recorded difference was produced by the loop body for some item.\<close>

lemma differences_loop_origin:
  "differences_loop params comps omv cm tracker = Inr tracker' \<Longrightarrow> d \<in> set tracker'
   \<Longrightarrow> d \<in> set tracker
       \<or> (\<exists>(key, v) \<in> set cm. \<exists>p c. check_item params comps omv key v = Inr (Some (p, c))
             \<and> d = \<lparr>name = key, parameter = p, active = c\<rparr>)"
proof (induction cm arbitrary: tracker)
  case Nil
  then show ?case by simp
next
  case (Cons a cm)
  obtain key v where a: "a = (key, v)" by (cases a)
  show ?case
  proof (cases "check_item params comps omv key v")
    case (Inl e)
    with Cons.prems a show ?thesis by simp
  next
    case (Inr r)
    show ?thesis
    proof (cases r)
      case None
      with Inr Cons.prems a
      have "differences_loop params comps omv cm tracker = Inr tracker'" by simp
      from Cons.IH[OF this Cons.prems(2)] show ?thesis by auto
    next
      case (Some pc)
      obtain p c where pc: "pc = (p, c)" by (cases pc)
      with Some Inr Cons.prems a
      have "differences_loop params comps omv cm (add tracker key p c) = Inr tracker'" by simp
      from Cons.IH[OF this Cons.prems(2)]
      show ?thesis
      proof
        assume "d \<in> set (add tracker key p c)"
        with set_add[of tracker key p c]
        have "d = \<lparr>name = key, parameter = p, active = c\<rparr> \<or> d \<in> set tracker" by auto
        then show ?thesis using Inr Some pc a by auto
      next
        assume "\<exists>(key, v) \<in> set cm. \<exists>p c. check_item params comps omv key v = Inr (Some (p, c))
             \<and> d = \<lparr>name = key, parameter = p, active = c\<rparr>"
        then show ?thesis by auto
      qed
    qed
  qed
qed

lemma differences_loop_no_mismatch:
  "\<forall>(key, v) \<in> set cm. check_item params comps omv key v = Inr None
   \<Longrightarrow> differences_loop params comps omv cm tracker = Inr tracker"
  by (induction cm arbitrary: tracker) auto


lemma fmsubset_refl: "x \<subseteq>\<^sub>f x"
  by (simp add: fmsubset_alt_def fmpred_iff)

lemma compare_generic_refl:
  assumes "a = normalize_observed t b"
  shows "compare_generic a b method t"
proof -
  have sub: "list_all (\<lambda>x. list_ex (\<lambda>y. x \<subseteq>\<^sub>f y) xs) xs" for xs :: "pydict list"
    by (auto simp: list_all_iff list_ex_iff intro: fmsubset_refl)
  have "compare_set method a a" "compare_dict method a a" "compare_set_of_dicts method a a"
    by (cases a; simp add: fmsubset_refl sub)+
  then show ?thesis
    unfolding compare_generic_def Let_def assms[symmetric]
    by (cases t) simp_all
qed

lemma check_item_equal:
  assumes "supported omv key \<longrightarrow>
      (\<exists>cmp p. comps (parameters_map_get key) = Some cmp \<and> params key = Some p
         \<and> (p = PNone \<or> p = normalize_observed (ctype cmp) v))"
  shows "check_item params comps omv key v = Inr None"
  using assms compare_generic_refl
  by (auto simp: check_item_def getattr_def Container_compare_def)

lemma check_item_Some:
  assumes "check_item params comps omv key v = Inr (Some (p, c))"
  shows "supported omv key \<and>
     (\<exists>cmp p0. comps (parameters_map_get key) = Some cmp \<and> params key = Some p0 \<and> p0 \<noteq> PNone
        \<and> \<not> Container_compare p0 v cmp \<and> display_values (ctype cmp) p0 v = Inr (p, c))"
  using assms
  by (auto simp: check_item_def getattr_def split: if_splits option.splits sum.splits)

lemma has_different_configuration_Inr:
  assumes "has_different_configuration params comps omv api observed = Inr (ch, ds)"
  shows "\<exists>ks. mapping_keys params omv api = Inr ks
     \<and> differences_loop params comps omv (map (\<lambda>k. (k, observed k)) ks) [] = Inr ds
     \<and> ch = (\<not> empty ds)"
  using assms
  by (auto simp: has_different_configuration_def config_mapping_keys_eq split: sum.splits)

text \<open>What is known of a recorded difference.\<close>

lemma recorded_difference:
  assumes "has_different_configuration params comps omv api observed = Inr (ch, ds)" "d \<in> set ds"
  shows "\<exists>ks. mapping_keys params omv api = Inr ks \<and> name d \<in> set ks
     \<and> check_item params comps omv (name d) (observed (name d)) = Inr (Some (parameter d, active d))"
proof -
  from has_different_configuration_Inr[OF assms(1)] obtain ks where
    ks: "mapping_keys params omv api = Inr ks"
    and l: "differences_loop params comps omv (map (\<lambda>k. (k, observed k)) ks) [] = Inr ds" by blast
  from differences_loop_origin[OF l assms(2)] show ?thesis using ks by auto
qed
























lemmas ex_defs = ex_comparisons_def ex_versions_def ex_parameters_def ex_observed_def

lemma ex_mapping_keys:
  "mapping_keys (ex_parameters caps ulimits) ex_versions False = Inr config_mapping_keys"
  by (simp add: mapping_keys_def getattr_def ex_defs)

lemma ex_config_mapping:
  "config_mapping (ex_parameters caps ulimits) ex_versions False observed
     = Inr (map (\<lambda>k. (k, observed k)) config_mapping_keys)"
  by (simp add: config_mapping_keys_eq ex_mapping_keys)

lemma ex_supported:
  "supported ex_versions key \<longleftrightarrow> key \<in> {''hostname'', ''capabilities'', ''expected_ulimits'', ''user''}"
  by (simp add: supported_def ex_versions_def)

text \<open>The example yields at most the items of the four supported keys.\<close>

lemma ex_check_item_unsupported:
  "key \<notin> {''hostname'', ''capabilities'', ''expected_ulimits'', ''user''}
    \<Longrightarrow> check_item params comps ex_versions key v = Inr None"
  by (simp add: check_item_def ex_supported)

text \<open>
  Claim C1. The flag that \<open>has_different_configuration\<close> returns is true exactly when
  the tracker it returns is not empty. When every supported item of \<open>config_mapping\<close>
  has its comparison entry and its attribute, and the attribute is \<open>None\<close> or equal to
  the observed value after defaulting, the function returns \<open>False\<close> and an empty
  tracker.
\<close>

theorem no_difference_when_equal:
  "(\<forall>ch ds. has_different_configuration params comps omv api observed = Inr (ch, ds)
        \<longrightarrow> ch = (\<not> empty ds) \<and> empty ds = (ds = []))
   \<and> (\<forall>cm. config_mapping params omv api observed = Inr cm
        \<longrightarrow> (\<forall>(key, v) \<in> set cm. supported omv key \<longrightarrow>
               (\<exists>cmp p. comps (parameters_map_get key) = Some cmp \<and> params key = Some p
                  \<and> (p = PNone \<or> p = normalize_observed (ctype cmp) v)))
        \<longrightarrow> has_different_configuration params comps omv api observed = Inr (False, []))"
proof (intro conjI allI impI)
  fix ch ds
  assume "has_different_configuration params comps omv api observed = Inr (ch, ds)"
  then show "ch = (\<not> empty ds)"
    by (auto simp: has_different_configuration_def split: sum.splits)
  show "empty ds = (ds = [])" by (simp add: empty_def)
next
  fix cm
  assume cm: "config_mapping params omv api observed = Inr cm"
    and eq: "\<forall>(key, v) \<in> set cm. supported omv key \<longrightarrow>
               (\<exists>cmp p. comps (parameters_map_get key) = Some cmp \<and> params key = Some p
                  \<and> (p = PNone \<or> p = normalize_observed (ctype cmp) v))"
  have "\<forall>(key, v) \<in> set cm. check_item params comps omv key v = Inr None"
    using eq check_item_equal by fastforce
  then have "differences_loop params comps omv cm [] = Inr []"
    by (rule differences_loop_no_mismatch)
  with cm show "has_different_configuration params comps omv api observed = Inr (False, [])"
    by (simp add: has_different_configuration_def empty_def)
qed

theorem no_difference_when_equal_witness:
  "has_different_configuration
     (ex_parameters (PList []) (PDicts [nofile, core])) ex_comparisons ex_versions False
     (ex_observed PNone (PDicts [nofile, core]) ''root'' ''512m'') = Inr (False, [])"
proof -
  let ?params = "ex_parameters (PList []) (PDicts [nofile, core])"
  let ?observed = "ex_observed PNone (PDicts [nofile, core]) ''root'' ''512m''"
  let ?cm = "map (\<lambda>k. (k, ?observed k)) config_mapping_keys"
  have "\<exists>cmp p. ex_comparisons (parameters_map_get key) = Some cmp \<and> ?params key = Some p
                  \<and> (p = PNone \<or> p = normalize_observed (ctype cmp) (?observed key))"
    if "supported ex_versions key" for key
  proof -
    from that consider "key = ''hostname''" | "key = ''capabilities''"
      | "key = ''expected_ulimits''" | "key = ''user''"
      unfolding ex_supported by blast
    then show ?thesis
      by cases
         (simp_all add: ex_defs parameters_map_get_def parameters_map_def normalize_observed_def)
  qed
  then have "\<forall>(key, v) \<in> set ?cm. supported ex_versions key \<longrightarrow>
               (\<exists>cmp p. ex_comparisons (parameters_map_get key) = Some cmp \<and> ?params key = Some p
                  \<and> (p = PNone \<or> p = normalize_observed (ctype cmp) v))"
    by auto
  with no_difference_when_equal[of ?params ex_comparisons ex_versions False ?observed]
    ex_config_mapping
  show ?thesis by blast
qed

text \<open>Items of unsupported options do not take part in the loop.\<close>

lemma differences_loop_supported:
  "differences_loop params comps omv cm tracker
     = differences_loop params comps omv (filter (\<lambda>(key, v). supported omv key) cm) tracker"
proof (induction cm arbitrary: tracker)
  case Nil
  then show ?case by simp
next
  case (Cons a cm)
  obtain key v where a: "a = (key, v)" by (cases a)
  show ?case
  proof (cases "supported omv key")
    case True
    then show ?thesis using Cons a by (simp split: sum.splits option.splits)
  next
    case False
    then have "check_item params comps omv key v = Inr None" by (simp add: check_item_def)
    then show ?thesis using Cons a False by simp
  qed
qed

lemma ex_supported_items:
  "filter (\<lambda>(key, v). supported ex_versions key) (map (\<lambda>k. (k, observed k)) config_mapping_keys)
     = [(''hostname'', observed ''hostname''), (''user'', observed ''user''),
        (''capabilities'', observed ''capabilities''),
        (''expected_ulimits'', observed ''expected_ulimits'')]"
  by (simp add: config_mapping_keys_def ex_supported)

lemma ex_has_different_configuration:
  "has_different_configuration (ex_parameters caps ulimits) comps ex_versions False observed
     = (case differences_loop (ex_parameters caps ulimits) comps ex_versions
               [(''hostname'', observed ''hostname''), (''user'', observed ''user''),
                (''capabilities'', observed ''capabilities''),
                (''expected_ulimits'', observed ''expected_ulimits'')] [] of
          Inl e \<Rightarrow> Inl e
        | Inr differences \<Rightarrow> Inr (\<not> empty differences, differences))"
  unfolding has_different_configuration_def ex_config_mapping sum.case
  by (subst differences_loop_supported) (simp only: ex_supported_items)

text \<open>The example run: the capabilities differ, the ulimits are the same in another
  order, the user differs but is ignored, \<open>memory\<close> is not supported.\<close>

lemma ex_run:
  "has_different_configuration
     (ex_parameters (PList [SStr ''NET_ADMIN'', SStr ''MKNOD'']) (PDicts [nofile, core]))
     ex_comparisons ex_versions False
     (ex_observed (PList [SStr ''SYS_TIME'', SStr ''MKNOD'']) (PDicts [core, nofile]) ''nobody'' memory)
   = Inr (True, [\<lparr>name = ''capabilities'',
                   parameter = PList [SStr ''MKNOD'', SStr ''NET_ADMIN''],
                   active = PList [SStr ''MKNOD'', SStr ''SYS_TIME'']\<rparr>])"
  by (subst ex_has_different_configuration)
     (simp add: check_item_def ex_supported getattr_def
        parameters_map_get_def parameters_map_def Container_compare_def compare_generic_def
        normalize_observed_def display_values_def add_def empty_def fmsubset_refl
        ex_comparisons_def ex_parameters_def ex_observed_def)



text \<open>
  Claim C6. Under the mode \<open>ignore\<close> the comparator reports a match for all pairs of
  values, so a property whose comparison entry says \<open>ignore\<close> is never among the
  recorded differences.
\<close>

theorem ignore_never_differs:
  "compare_generic a b Ignore t
   \<and> (comparison cmp = Ignore \<longrightarrow> Container_compare a b cmp)
   \<and> (\<forall>ch ds. has_different_configuration params comps omv api observed = Inr (ch, ds)
         \<and> comps (parameters_map_get key) = Some cmp \<and> comparison cmp = Ignore
         \<longrightarrow> key \<notin> name ` set ds)"
proof (intro conjI allI impI)
  show "compare_generic a b Ignore t" by (simp add: compare_generic_def)
  show "Container_compare a b cmp" if "comparison cmp = Ignore"
    using that by (simp add: Container_compare_def compare_generic_def)
next
  fix ch ds
  assume a: "has_different_configuration params comps omv api observed = Inr (ch, ds)
         \<and> comps (parameters_map_get key) = Some cmp \<and> comparison cmp = Ignore"
  show "key \<notin> name ` set ds"
  proof
    assume "key \<in> name ` set ds"
    then obtain d where d: "d \<in> set ds" "name d = key" by auto
    with a recorded_difference[of params comps omv api observed ch ds d]
    have "check_item params comps omv key (observed key) = Inr (Some (parameter d, active d))"
      by auto
    from check_item_Some[OF this] a show False
      by (auto simp: Container_compare_def compare_generic_def)
  qed
qed

theorem ignore_never_differs_witness:
  "compare_generic (PValue (SStr ''root'')) (PValue (SStr ''nobody'')) Ignore TValue
   \<and> (\<exists>ch ds. has_different_configuration
         (ex_parameters (PList [SStr ''NET_ADMIN'', SStr ''MKNOD'']) (PDicts [nofile, core]))
         ex_comparisons ex_versions False
         (ex_observed (PList [SStr ''SYS_TIME'', SStr ''MKNOD'']) (PDicts [core, nofile]) ''nobody'' ''1g'')
         = Inr (ch, ds) \<and> ''user'' \<notin> name ` set ds)"
proof -
  let ?params = "ex_parameters (PList [SStr ''NET_ADMIN'', SStr ''MKNOD'']) (PDicts [nofile, core])"
  let ?obs = "ex_observed (PList [SStr ''SYS_TIME'', SStr ''MKNOD'']) (PDicts [core, nofile]) ''nobody'' ''1g''"
  let ?cmp = "\<lparr>ctype = TValue, comparison = Ignore, cname = ''user''\<rparr>"
  note t = ignore_never_differs[of "PValue (SStr ''root'')" "PValue (SStr ''nobody'')" TValue ?cmp
      ?params ex_comparisons ex_versions False ?obs "''user''"]
  obtain ch ds where r: "has_different_configuration ?params ex_comparisons ex_versions False ?obs
      = Inr (ch, ds)" by (simp add: ex_run)
  have "ex_comparisons (parameters_map_get ''user'') = Some ?cmp \<and> comparison ?cmp = Ignore"
    by (simp add: ex_comparisons_def parameters_map_get_def parameters_map_def)
  with t r have "''user'' \<notin> name ` set ds" by blast
  with t r show ?thesis by blast
qed

lemma same_up_to_order_refl: "same_up_to_order t v v"
  by (simp add: same_up_to_order_def)



section \<open>Properties of removing and stopping\<close>










end
